theory Spec2Isabelle
  imports Main
begin

section \<open>JavaScript values\<close>

text \<open>
  The authentication provider of the web client (\<^verbatim>\<open>AuthContext.jsx\<close>) handles values whose
  shape is fixed only at run time: backend responses, thrown errors, the identity
  provider's results. They are modelled by one datatype of JavaScript values. Numbers are
  restricted to integers and arrays are left out (the code reads no array and no
  fraction); an object is the list of its properties, the first entry of a key counting.
  \<open>JNum n\<close> stands for the number \<open>n\<close>; beyond \<open>2 ^ 53\<close> not every integer is a number of
  JavaScript.
\<close>

datatype jsval =
    JUndefined
  | JNull
  | JBool bool
  | JNum int
  | JStr string
  | JObj "(string \<times> jsval) list"

text \<open>Truthiness, as \<^verbatim>\<open>if (v)\<close>, \<^verbatim>\<open>!v\<close> and \<^verbatim>\<open>a || b\<close> decide it.\<close>

fun truthy :: "jsval \<Rightarrow> bool" where
  "truthy JUndefined = False"
| "truthy JNull = False"
| "truthy (JBool b) = b"
| "truthy (JNum n) = (n \<noteq> 0)"
| "truthy (JStr s) = (s \<noteq> [])"
| "truthy (JObj fs) = True"

fun nullish :: "jsval \<Rightarrow> bool" where
  "nullish JUndefined = True"
| "nullish JNull = True"
| "nullish v = False"

text \<open>\<^verbatim>\<open>a || b\<close>: the first operand when it is truthy, the second otherwise.\<close>

definition js_or :: "jsval \<Rightarrow> jsval \<Rightarrow> jsval" where
  "js_or a b = (if truthy a then a else b)"

text \<open>
  Reading the property \<open>k\<close> of a value that is neither \<^verbatim>\<open>null\<close> nor \<^verbatim>\<open>undefined\<close>. A
  missing property reads as \<^verbatim>\<open>undefined\<close>; so does every property the code asks of a
  boolean, a number or a string (it never asks for \<^verbatim>\<open>length\<close>).
\<close>

fun field :: "jsval \<Rightarrow> string \<Rightarrow> jsval" where
  "field (JObj fs) k = (case map_of fs k of None \<Rightarrow> JUndefined | Some v \<Rightarrow> v)"
| "field v k = JUndefined"

text \<open>Decimal rendering of a number, for \<^verbatim>\<open>String(n)\<close>.\<close>

function string_of_nat :: "nat \<Rightarrow> string" where
  "string_of_nat n =
     (if n < 10 then [''0123456789'' ! n]
      else string_of_nat (n div 10) @ [''0123456789'' ! (n mod 10)])"
  by pat_completeness auto
termination
  by (relation "measure id") auto

definition string_of_int :: "int \<Rightarrow> string" where
  "string_of_int i = (if i < 0 then CHR ''-'' # string_of_nat (nat (- i)) else string_of_nat (nat i))"

text \<open>
  \<^verbatim>\<open>String(v)\<close>: what \<^verbatim>\<open>localStorage.setItem(key, v)\<close> stores, since the storage holds
  strings only. An integer up to \<open>2 ^ 53\<close> in magnitude is rendered by its decimal digits.
  A larger number is rendered by the shortest digits that identify it and, from
  \<^verbatim>\<open>1e21\<close> on, in exponent notation (\<^verbatim>\<open>String(1e21)\<close> is \<^verbatim>\<open>1e+21\<close>); that rendering
  is left unspecified here.
\<close>

fun to_string :: "jsval \<Rightarrow> string" where
  "to_string JUndefined = ''undefined''"
| "to_string JNull = ''null''"
| "to_string (JBool b) = (if b then ''true'' else ''false'')"
| "to_string (JNum n) = (if \<bar>n\<bar> \<le> 2 ^ 53 then string_of_int n else undefined)"
| "to_string (JStr s) = s"
| "to_string (JObj fs) = ''[object Object]''"

text \<open>
  The \<^verbatim>\<open>TypeError\<close> the engine throws when a property of \<^verbatim>\<open>null\<close> or \<^verbatim>\<open>undefined\<close> is
  read or destructured. The wording of its message differs between engines; nothing
  below depends on it.
\<close>

definition type_error :: "jsval \<Rightarrow> string \<Rightarrow> jsval" where
  "type_error v k =
     JObj [(''name'', JStr ''TypeError''),
           (''message'', JStr (''Cannot read properties of '' @ to_string v @ '' (reading '' @ k @ '')''))]"

text \<open>
  \<^verbatim>\<open>v.k\<close> and \<^verbatim>\<open>const { k } = v\<close>: \<open>Inl\<close> carries the thrown value, \<open>Inr\<close> the value read.
\<close>

definition get_field :: "jsval \<Rightarrow> string \<Rightarrow> jsval + jsval" where
  "get_field v k = (if nullish v then Inl (type_error v k) else Inr (field v k))"

text \<open>\<^verbatim>\<open>v?.k\<close>: optional chaining never throws.\<close>

definition opt_field :: "jsval \<Rightarrow> string \<Rightarrow> jsval" where
  "opt_field v k = (if nullish v then JUndefined else field v k)"

text \<open>Sequencing of steps that may throw.\<close>

fun bind_js :: "jsval + 'a \<Rightarrow> ('a \<Rightarrow> jsval + 'b) \<Rightarrow> jsval + 'b" where
  "bind_js (Inl e) f = Inl e"
| "bind_js (Inr v) f = f v"

text \<open>
  What awaiting an external call gives: the call throws (its promise rejects) or returns.
  The result of every awaited call is an input of the model.
\<close>

datatype awaited = Throws jsval | Returns jsval

text \<open>How a function of the provider ends: its promise rejects or resolves.\<close>

datatype outcome = Rejected jsval | Resolved jsval

fun is_rejected :: "outcome \<Rightarrow> bool" where
  "is_rejected (Rejected e) = True"
| "is_rejected (Resolved v) = False"

section \<open>The state of the authentication provider\<close>

text \<open>
  \<^verbatim>\<open>pendingGoogleAuth\<close> holds \<^verbatim>\<open>null\<close> or an object \<^verbatim>\<open>{ idToken, userEmail }\<close>.
\<close>

record pending_auth =
  idToken :: jsval
  userEmail :: jsval

text \<open>
  Everything the provider does to the outside, in the order it does it: requests to the
  backend, calls of the identity provider's wrapper, writes made to \<^verbatim>\<open>localStorage\<close>, calls of
  the three state setters, navigation, toasts and console output (the first argument of
  a console call only).
\<close>

datatype effect =
    ApiPost string jsval
  | ApiGet string
  | FirebaseGoogleSignIn
  | FirebaseSignOut
  | CheckRedirectResult
  | StorageSet string string
  | StorageRemove string
  | SetUser jsval
  | SetLoading bool
  | SetPendingGoogleAuth "pending_auth option"
  | Navigate string bool
  | ToastSuccess jsval
  | ToastError jsval
  | ToastInfo jsval
  | ConsoleLog string
  | ConsoleWarn string
  | ConsoleError string

text \<open>
  The three \<^verbatim>\<open>useState\<close> cells of \<^verbatim>\<open>AuthProvider\<close>, the browser's \<^verbatim>\<open>localStorage\<close> and the
  trace of effects. A state setter is modelled as writing its cell at once. A function
  of the provider does not see the cells but the constants of the render that created
  it; the one function that reads such a constant, \<^verbatim>\<open>completeGoogleLogin\<close>, takes its value
  as an argument.

  Whether the browser has room for a write is the browser's to say:
  \<open>quota_allows s store k v\<close> tells whether \<^verbatim>\<open>localStorage.setItem(k, v)\<close> succeeds on the
  storage \<open>store\<close>.
\<close>

record auth_state =
  user :: jsval
  loading :: bool
  pendingGoogleAuth :: "pending_auth option"
  localStorage :: "string \<rightharpoonup> string"
  quota_allows :: "(string \<rightharpoonup> string) \<Rightarrow> string \<Rightarrow> string \<Rightarrow> bool"
  effects :: "effect list"

text \<open>
  The state when \<^verbatim>\<open>AuthProvider\<close> mounts on a browser whose storage is \<open>store\<close> and has room
  for every write.
\<close>

definition initial_state :: "(string \<rightharpoonup> string) \<Rightarrow> auth_state" where
  "initial_state store =
     \<lparr>user = JNull, loading = True, pendingGoogleAuth = None, localStorage = store,
      quota_allows = (\<lambda>store k v. True), effects = []\<rparr>"

definition emit :: "effect \<Rightarrow> auth_state \<Rightarrow> auth_state" where
  "emit e s = s\<lparr>effects := effects s @ [e]\<rparr>"

definition setUser :: "jsval \<Rightarrow> auth_state \<Rightarrow> auth_state" where
  "setUser v s = emit (SetUser v) (s\<lparr>user := v\<rparr>)"

definition setLoading :: "bool \<Rightarrow> auth_state \<Rightarrow> auth_state" where
  "setLoading b s = emit (SetLoading b) (s\<lparr>loading := b\<rparr>)"

definition setPendingGoogleAuth :: "pending_auth option \<Rightarrow> auth_state \<Rightarrow> auth_state" where
  "setPendingGoogleAuth p s = emit (SetPendingGoogleAuth p) (s\<lparr>pendingGoogleAuth := p\<rparr>)"

definition localStorage_getItem :: "string \<Rightarrow> auth_state \<Rightarrow> jsval" where
  "localStorage_getItem k s = (case localStorage s k of None \<Rightarrow> JNull | Some v \<Rightarrow> JStr v)"

text \<open>
  \<^verbatim>\<open>localStorage.setItem(k, v)\<close> stores \<^verbatim>\<open>String(v)\<close>, or throws a \<^verbatim>\<open>QuotaExceededError\<close> and
  stores nothing when the browser has no room for the write. Reading and removing never
  throw.
\<close>

definition quota_exceeded_error :: jsval where
  "quota_exceeded_error =
     JObj [(''name'', JStr ''QuotaExceededError''),
           (''message'', JStr ''The quota has been exceeded.'')]"

definition localStorage_setItem :: "string \<Rightarrow> jsval \<Rightarrow> auth_state \<Rightarrow> jsval + auth_state" where
  "localStorage_setItem k v s =
     (if quota_allows s (localStorage s) k (to_string v)
      then Inr (emit (StorageSet k (to_string v))
                  (s\<lparr>localStorage := (localStorage s)(k \<mapsto> to_string v)\<rparr>))
      else Inl quota_exceeded_error)"

definition localStorage_removeItem :: "string \<Rightarrow> auth_state \<Rightarrow> auth_state" where
  "localStorage_removeItem k s =
     emit (StorageRemove k) (s\<lparr>localStorage := (localStorage s)(k := None)\<rparr>)"

definition navigate :: "string \<Rightarrow> bool \<Rightarrow> auth_state \<Rightarrow> auth_state" where
  "navigate path replace s = emit (Navigate path replace) s"

definition toast_success :: "jsval \<Rightarrow> auth_state \<Rightarrow> auth_state" where
  "toast_success m s = emit (ToastSuccess m) s"

definition toast_error :: "jsval \<Rightarrow> auth_state \<Rightarrow> auth_state" where
  "toast_error m s = emit (ToastError m) s"

definition toast_info :: "jsval \<Rightarrow> auth_state \<Rightarrow> auth_state" where
  "toast_info m s = emit (ToastInfo m) s"

definition console_log :: "string \<Rightarrow> auth_state \<Rightarrow> auth_state" where
  "console_log m s = emit (ConsoleLog m) s"

definition console_warn :: "string \<Rightarrow> auth_state \<Rightarrow> auth_state" where
  "console_warn m s = emit (ConsoleWarn m) s"

definition console_error :: "string \<Rightarrow> auth_state \<Rightarrow> auth_state" where
  "console_error m s = emit (ConsoleError m) s"

text \<open>Issuing a request; what awaiting it gives is an input of the caller.\<close>

definition api_post :: "string \<Rightarrow> jsval \<Rightarrow> auth_state \<Rightarrow> auth_state" where
  "api_post path body s = emit (ApiPost path body) s"

definition api_get :: "string \<Rightarrow> auth_state \<Rightarrow> auth_state" where
  "api_get path s = emit (ApiGet path) s"

section \<open>The Google sign-in flow\<close>

text \<open>
  An \<^verbatim>\<open>async\<close> function runs without interruption from its call to its first \<^verbatim>\<open>await\<close>, and
  from the settling of the awaited promise to its end; other calls can run in between.
  The functions of the sign-in flow suspend once each. They are modelled in these two
  pieces, and as the whole call that runs one piece after the other.
\<close>

datatype progress = Finished outcome auth_state | Awaiting auth_state

text \<open>
  \<^verbatim>\<open>handleGoogleLogin(idToken, role)\<close> up to \<^verbatim>\<open>await api.post('/auth/google', ...)\<close>.
\<close>

definition handleGoogleLogin_request :: "jsval \<Rightarrow> jsval \<Rightarrow> auth_state \<Rightarrow> auth_state" where
  "handleGoogleLogin_request idTok role s =
     (let s1 = console_log ''Sending Google auth to backend with role:'' s
      in api_post ''/auth/google'' (JObj [(''id_token'', idTok), (''role'', role)]) s1)"

text \<open>
  Between the request and the first write the code only reads the response:
  \<^verbatim>\<open>const { data } = response.data\<close>, the destructuring of \<^verbatim>\<open>data\<close> and \<^verbatim>\<open>userData.email\<close>
  in the console call, each of which throws on \<^verbatim>\<open>null\<close> and \<^verbatim>\<open>undefined\<close>.
\<close>

definition google_response_fields :: "jsval \<Rightarrow> jsval + jsval \<times> jsval \<times> jsval" where
  "google_response_fields response =
     bind_js (get_field response ''data'') (\<lambda>body.
     bind_js (get_field body ''data'') (\<lambda>data.
     bind_js (get_field data ''access_token'') (\<lambda>access_token.
     bind_js (get_field (field data ''user'') ''email'') (\<lambda>email.
     Inr (access_token, field data ''refresh_token'', field data ''user'')))))"

text \<open>
  What the exchange with the backend yields: the thrown value, or the two tokens and the
  user record of the response. \<open>reply\<close> is what awaiting the request gives.
\<close>

definition exchange :: "awaited \<Rightarrow> jsval + jsval \<times> jsval \<times> jsval" where
  "exchange reply =
     (case reply of Throws e \<Rightarrow> Inl e | Returns response \<Rightarrow> google_response_fields response)"

text \<open>
  The rest of the \<^verbatim>\<open>try\<close> block of \<^verbatim>\<open>handleGoogleLogin\<close>, from the settling of the request.
  Each of the two writes can throw; what was written before stays written.
\<close>

definition handleGoogleLogin_try :: "awaited \<Rightarrow> auth_state \<Rightarrow> (jsval + jsval) \<times> auth_state" where
  "handleGoogleLogin_try reply s =
     (case exchange reply of
        Inl e \<Rightarrow> (Inl e, s)
      | Inr (access_token, refresh_token, userData) \<Rightarrow>
          (let s3 = console_log ''Google auth successful, user data:'' s
           in case localStorage_setItem ''accessToken'' access_token s3 of
                Inl e \<Rightarrow> (Inl e, s3)
              | Inr s4 \<Rightarrow>
                  (case localStorage_setItem ''refreshToken'' refresh_token s4 of
                     Inl e \<Rightarrow> (Inl e, s4)
                   | Inr s5 \<Rightarrow>
                       (let s6 = setUser userData s5;
                            s7 = toast_success (JStr ''Welcome to Savitara!'') s6;
                            isOnboarded = js_or (field userData ''onboarded'')
                                                (field userData ''onboarding_completed'');
                            destination = (if truthy isOnboarded then ''/'' else ''/onboarding'');
                            s8 = console_log ''Navigating to:'' s7;
                            s9 = navigate destination True s8
                        in (Inr JUndefined, s9)))))"

text \<open>
  With the \<^verbatim>\<open>catch\<close> block, which logs, shows a toast and rethrows. \<^verbatim>\<open>error.response\<close>
  itself throws when the caught value is \<^verbatim>\<open>null\<close> or \<^verbatim>\<open>undefined\<close>.
\<close>

definition handleGoogleLogin_settle :: "awaited \<Rightarrow> auth_state \<Rightarrow> outcome \<times> auth_state" where
  "handleGoogleLogin_settle reply s =
     (case handleGoogleLogin_try reply s of
        (Inr v, s') \<Rightarrow> (Resolved v, s')
      | (Inl error, s') \<Rightarrow>
          (let s1 = console_error ''Backend login failed:'' s'
           in case get_field error ''response'' of
                Inl te \<Rightarrow> (Rejected te, s1)
              | Inr resp \<Rightarrow>
                  (let errorMsg =
                         js_or (js_or (opt_field (opt_field resp ''data'') ''detail'')
                                      (opt_field (opt_field resp ''data'') ''message''))
                               (JStr ''Authentication failed'');
                       s2 = toast_error errorMsg s1
                   in (Rejected error, s2))))"

text \<open>The whole of \<^verbatim>\<open>handleGoogleLogin(idToken, role)\<close>, when nothing else runs in between.\<close>

definition handleGoogleLogin ::
    "jsval \<Rightarrow> jsval \<Rightarrow> awaited \<Rightarrow> auth_state \<Rightarrow> outcome \<times> auth_state" where
  "handleGoogleLogin idTok role reply s =
     handleGoogleLogin_settle reply (handleGoogleLogin_request idTok role s)"

text \<open>
  \<^verbatim>\<open>completeGoogleLogin(role)\<close> up to the \<^verbatim>\<open>await\<close> inside \<^verbatim>\<open>handleGoogleLogin\<close>. The
  \<^verbatim>\<open>pendingGoogleAuth\<close> it tests and reads is the constant of the render that created the
  function (\<^verbatim>\<open>const [pendingGoogleAuth, setPendingGoogleAuth] = useState(null)\<close>), not the
  cell: \<open>captured\<close> is that value. A function taken from the provider's value after the
  render has caught up with the cell has \<open>captured = pendingGoogleAuth s\<close>; one kept from
  an earlier render has the value of that render. With nothing captured it shows a
  toast and returns.
\<close>

definition completeGoogleLogin_start :: "pending_auth option \<Rightarrow> jsval \<Rightarrow> auth_state \<Rightarrow> progress" where
  "completeGoogleLogin_start captured role s =
     (case captured of
        None \<Rightarrow>
          Finished (Resolved JUndefined)
            (toast_error (JStr ''No pending authentication. Please try again.'') s)
      | Some pending \<Rightarrow> Awaiting (handleGoogleLogin_request (idToken pending) role s))"

text \<open>
  \<^verbatim>\<open>completeGoogleLogin\<close> from the settling of the request: the rest of
  \<^verbatim>\<open>handleGoogleLogin\<close>, then the emptying of the holder, which stands inside the \<^verbatim>\<open>try\<close>
  block; the \<^verbatim>\<open>catch\<close> block logs, shows a toast and rethrows.
\<close>

definition completeGoogleLogin_resume :: "awaited \<Rightarrow> auth_state \<Rightarrow> outcome \<times> auth_state" where
  "completeGoogleLogin_resume reply s =
     (case handleGoogleLogin_settle reply s of
        (Resolved v, s1) \<Rightarrow> (Resolved JUndefined, setPendingGoogleAuth None s1)
      | (Rejected error, s1) \<Rightarrow>
          (let s2 = console_error ''Failed to complete Google login:'' s1
           in case get_field error ''message'' of
                Inl te \<Rightarrow> (Rejected te, s2)
              | Inr m \<Rightarrow>
                  (Rejected error,
                   toast_error (js_or m (JStr ''Failed to complete login'')) s2)))"

text \<open>The whole of \<^verbatim>\<open>completeGoogleLogin(role)\<close>, when nothing else runs in between.\<close>

definition completeGoogleLogin ::
    "pending_auth option \<Rightarrow> jsval \<Rightarrow> awaited \<Rightarrow> auth_state \<Rightarrow> outcome \<times> auth_state" where
  "completeGoogleLogin captured role reply s =
     (case completeGoogleLogin_start captured role s of
        Finished out s' \<Rightarrow> (out, s')
      | Awaiting s' \<Rightarrow> completeGoogleLogin_resume reply s')"

text \<open>\<^verbatim>\<open>cancelGoogleLogin\<close>\<close>

definition cancelGoogleLogin :: "auth_state \<Rightarrow> auth_state" where
  "cancelGoogleLogin s = setPendingGoogleAuth None s"

text \<open>
  \<^verbatim>\<open>loginWithGoogle(legacyCredential)\<close> suspends at \<^verbatim>\<open>await firebaseGoogleSignIn()\<close>, and
  only when no legacy credential is given. Storing the credential and reporting that a
  role is needed is the end of both paths.
\<close>

definition loginWithGoogle_store :: "jsval \<Rightarrow> jsval \<Rightarrow> auth_state \<Rightarrow> outcome \<times> auth_state" where
  "loginWithGoogle_store idTok email s =
     (Resolved (JObj [(''needsRoleSelection'', JBool True), (''userEmail'', email)]),
      setPendingGoogleAuth (Some \<lparr>idToken = idTok, userEmail = email\<rparr>) s)"

definition loginWithGoogle_start :: "jsval \<Rightarrow> auth_state \<Rightarrow> progress" where
  "loginWithGoogle_start legacyCredential s =
     (if truthy legacyCredential
      then (case loginWithGoogle_store legacyCredential JNull s of (out, s') \<Rightarrow> Finished out s')
      else Awaiting (emit FirebaseGoogleSignIn s))"

definition loginWithGoogle_resume :: "awaited \<Rightarrow> auth_state \<Rightarrow> outcome \<times> auth_state" where
  "loginWithGoogle_resume signIn s =
     (case signIn of
        Returns result \<Rightarrow>
          (if \<not> truthy result
           then (Resolved JUndefined,
                 console_log ''Redirect initiated - user will return after authentication'' s)
           else loginWithGoogle_store (field result ''idToken'')
                  (opt_field (field result ''user'') ''email'') s)
      | Throws error \<Rightarrow>
          (let s1 = console_error ''Login failed:'' s
           in case get_field error ''message'' of
                Inl te \<Rightarrow> (Rejected te, s1)
              | Inr m \<Rightarrow> (Rejected error, toast_error (js_or m (JStr ''Login failed'')) s1)))"

text \<open>The whole call, \<open>signIn\<close> being what the awaited sign-in gives when it is reached.\<close>

definition loginWithGoogle :: "jsval \<Rightarrow> awaited \<Rightarrow> auth_state \<Rightarrow> outcome \<times> auth_state" where
  "loginWithGoogle legacyCredential signIn s =
     (case loginWithGoogle_start legacyCredential s of
        Finished out s' \<Rightarrow> (out, s')
      | Awaiting s' \<Rightarrow> loginWithGoogle_resume signIn s')"

section \<open>Start-up, e-mail login and logout\<close>

text \<open>
  \<^verbatim>\<open>response.data.data || response.data\<close>, the unwrapping of the backend's envelope used
  by \<^verbatim>\<open>checkAuth\<close>, \<^verbatim>\<open>loginWithEmail\<close>, \<^verbatim>\<open>registerWithEmail\<close> and \<^verbatim>\<open>refreshUserData\<close>.
\<close>

definition unwrap_response :: "jsval \<Rightarrow> jsval + jsval" where
  "unwrap_response response =
     bind_js (get_field response ''data'') (\<lambda>body.
     bind_js (get_field body ''data'') (\<lambda>data. Inr (js_or data body)))"

text \<open>
  Awaiting a request and unwrapping its response, inside a \<^verbatim>\<open>try\<close> block: the thrown
  value (of the request or of the unwrapping) or the unwrapped payload.
\<close>

definition unwrapped :: "awaited \<Rightarrow> jsval + jsval" where
  "unwrapped reply =
     (case reply of Throws e \<Rightarrow> Inl e | Returns response \<Rightarrow> unwrap_response response)"

text \<open>
  \<^verbatim>\<open>checkAuth\<close>. \<open>me\<close> is what awaiting \<^verbatim>\<open>api.get('/auth/me')\<close> gives. Without two truthy
  stored tokens no request is made. The \<^verbatim>\<open>finally\<close> block runs on both paths.
\<close>

definition checkAuth :: "awaited \<Rightarrow> auth_state \<Rightarrow> outcome \<times> auth_state" where
  "checkAuth me s =
     (let accessToken = localStorage_getItem ''accessToken'' s;
          refreshToken = localStorage_getItem ''refreshToken'' s
      in if \<not> truthy accessToken \<or> \<not> truthy refreshToken
         then (Resolved JUndefined, setLoading False s)
         else
           (let s1 = api_get ''/auth/me'' s;
                s2 = (case unwrapped me of
                        Inr userData \<Rightarrow> setUser userData s1
                      | Inl error \<Rightarrow>
                          (let c1 = console_error ''Auth check failed:'' s1;
                               c2 = localStorage_removeItem ''accessToken'' c1;
                               c3 = localStorage_removeItem ''refreshToken'' c2
                           in setUser JNull c3))
            in (Resolved JUndefined, setLoading False s2)))"

text \<open>
  \<^verbatim>\<open>initAuth\<close>, run once when the provider mounts. \<open>redirect\<close> is what awaiting
  \<^verbatim>\<open>checkRedirectResult()\<close> gives. \<^verbatim>\<open>checkAuth()\<close> is started without \<^verbatim>\<open>await\<close>; its run is
  included here.
\<close>

definition initAuth :: "awaited \<Rightarrow> awaited \<Rightarrow> auth_state \<Rightarrow> outcome \<times> auth_state" where
  "initAuth redirect me s =
     (let s0 = emit CheckRedirectResult s
      in case redirect of
           Throws error \<Rightarrow> checkAuth me (console_warn ''No redirect result:'' s0)
         | Returns redirectResult \<Rightarrow>
             (if truthy (opt_field redirectResult ''idToken'')
              then
                (let s1 = console_log ''Processing redirect result from mobile OAuth...'' s0;
                     s2 = setPendingGoogleAuth
                            (Some \<lparr>idToken = field redirectResult ''idToken'',
                                   userEmail = opt_field (field redirectResult ''user'') ''email''\<rparr>) s1
                 in (Resolved JUndefined, setLoading False s2))
              else checkAuth me s0))"



text \<open>
  \<^verbatim>\<open>logout\<close>. \<open>reply\<close> is what awaiting \<^verbatim>\<open>api.post('/auth/logout')\<close> gives and \<open>signOut\<close> what
  awaiting \<^verbatim>\<open>firebaseSignOut()\<close> gives; each failure is logged and swallowed.
\<close>

definition logout :: "awaited \<Rightarrow> awaited \<Rightarrow> auth_state \<Rightarrow> outcome \<times> auth_state" where
  "logout reply signOut s =
     (let s1 = api_post ''/auth/logout'' JUndefined s;
          s2 = (case reply of Throws error \<Rightarrow> console_error ''Logout API failed:'' s1
                            | Returns r \<Rightarrow> s1);
          s3 = emit FirebaseSignOut s2;
          s4 = (case signOut of Throws error \<Rightarrow> console_error ''Firebase sign out failed:'' s3
                              | Returns r \<Rightarrow> s3);
          s5 = localStorage_removeItem ''accessToken'' s4;
          s6 = localStorage_removeItem ''refreshToken'' s5;
          s7 = setUser JNull s6;
          s8 = navigate ''/login'' False s7
      in (Resolved JUndefined, toast_info (JStr ''Logged out successfully'') s8))"



section \<open>The role-selection dialog\<close>





section \<open>Operations, traces and the token pair\<close>

text \<open>
  The operations of the provider: the start-up effect and the functions it hands to its
  consumers, each with the results of the calls it awaits, and \<^verbatim>\<open>completeGoogleLogin\<close> with
  the credential its render captured.
\<close>

datatype operation =
    InitAuth awaited awaited
  | LoginWithEmail jsval jsval awaited
  | RegisterWithEmail jsval awaited
  | LoginWithGoogle jsval awaited
  | CompleteGoogleLogin "pending_auth option" jsval awaited
  | CancelGoogleLogin
  | Logout awaited awaited
  | UpdateUser jsval
  | RefreshUserData awaited



text \<open>
  The browser has room for the two writes of the tokens, one after the other, on the
  storage of \<open>s\<close>.
\<close>

definition accepts_tokens :: "jsval \<Rightarrow> jsval \<Rightarrow> auth_state \<Rightarrow> bool" where
  "accepts_tokens access_token refresh_token s =
     (quota_allows s (localStorage s) ''accessToken'' (to_string access_token)
      \<and> quota_allows s ((localStorage s)(''accessToken'' \<mapsto> to_string access_token))
            ''refreshToken'' (to_string refresh_token))"

text \<open>The two session tokens are both stored or both absent.\<close>

definition tokens_paired :: "(string \<rightharpoonup> string) \<Rightarrow> bool" where
  "tokens_paired store = ((store ''accessToken'' = None) = (store ''refreshToken'' = None))"

text \<open>The navigation commands of a trace (path and \<^verbatim>\<open>replace\<close> flag) and its backend requests.\<close>

fun navigations :: "effect list \<Rightarrow> (string \<times> bool) list" where
  "navigations [] = []"
| "navigations (Navigate path replace # es) = (path, replace) # navigations es"
| "navigations (e # es) = navigations es"

fun api_requests :: "effect list \<Rightarrow> effect list" where
  "api_requests [] = []"
| "api_requests (ApiPost path body # es) = ApiPost path body # api_requests es"
| "api_requests (ApiGet path # es) = ApiGet path # api_requests es"
| "api_requests (e # es) = api_requests es"

text \<open>The credentials written into the pending-auth holder along a trace.\<close>

fun pending_writes :: "effect list \<Rightarrow> pending_auth list" where
  "pending_writes [] = []"
| "pending_writes (SetPendingGoogleAuth (Some p) # es) = p # pending_writes es"
| "pending_writes (e # es) = pending_writes es"

fun is_awaiting :: "progress \<Rightarrow> bool" where
  "is_awaiting (Awaiting s) = True"
| "is_awaiting (Finished out s) = False"

fun state_of :: "progress \<Rightarrow> auth_state" where
  "state_of (Awaiting s) = s"
| "state_of (Finished out s) = s"

section \<open>Concrete runs\<close>

text \<open>
  A popup sign-in that returns the token \<^verbatim>\<open>tok123\<close> for \<^verbatim>\<open>a@x.com\<close>, on a browser with an
  empty storage, and the state it leaves: the credential is in the holder.
\<close>

definition popup_result :: awaited where
  "popup_result =
     Returns (JObj [(''user'', JObj [(''uid'', JStr ''u1''), (''email'', JStr ''a@x.com''),
                                     (''displayName'', JStr ''A''), (''photoURL'', JNull)]),
                    (''idToken'', JStr ''tok123'')])"

definition awaiting_role :: auth_state where
  "awaiting_role = snd (loginWithGoogle JNull popup_result (initial_state Map.empty))"

text \<open>A backend response in the standard envelope, for a user with the given properties.\<close>

definition backend_response :: "(string \<times> jsval) list \<Rightarrow> awaited" where
  "backend_response userFields =
     Returns (JObj [(''status'', JNum 200),
                    (''data'', JObj [(''success'', JBool True),
                                     (''data'', JObj [(''access_token'', JStr ''acc1''),
                                                      (''refresh_token'', JStr ''ref1''),
                                                      (''user'', JObj userFields)]),
                                     (''message'', JStr ''Login successful'')])])"

definition new_user :: "(string \<times> jsval) list" where
  "new_user = [(''email'', JStr ''a@x.com''), (''role'', JStr ''acharya''), (''onboarded'', JBool False)]"

definition legacy_flag_user :: "(string \<times> jsval) list" where
  "legacy_flag_user =
     [(''email'', JStr ''b@x.com''), (''role'', JStr ''grihasta''), (''onboarded'', JBool False),
      (''onboarding_completed'', JBool True)]"

text \<open>A browser storage that holds a session from an earlier visit.\<close>

definition stored_session :: "string \<rightharpoonup> string" where
  "stored_session = [''accessToken'' \<mapsto> ''acc0'', ''refreshToken'' \<mapsto> ''ref0'']"

text \<open>
  A browser whose quota leaves room for one of the two tokens only, and the state after
  the popup sign-in on such a browser.
\<close>

definition room_for_one :: "(string \<rightharpoonup> string) \<Rightarrow> string \<Rightarrow> string \<Rightarrow> bool" where
  "room_for_one store k v = (store ''accessToken'' = None \<and> store ''refreshToken'' = None)"

definition awaiting_role_nearly_full :: auth_state where
  "awaiting_role_nearly_full = awaiting_role\<lparr>quota_allows := room_for_one\<rparr>"

text \<open>A request that fails without a response, as on a network failure.\<close>

definition network_failure :: awaited where
  "network_failure = Throws (JObj [(''message'', JStr ''Network Error'')])"

text \<open>
  The credential \<^verbatim>\<open>tok123\<close> is being exchanged (\<^verbatim>\<open>completeGoogleLogin('acharya')\<close> is
  suspended at its request) when \<^verbatim>\<open>loginWithGoogle()\<close> is called again and its popup
  returns the token \<^verbatim>\<open>tok456\<close> for \<^verbatim>\<open>b@x.com\<close>.
\<close>

definition exchanging :: progress where
  "exchanging =
     completeGoogleLogin_start (pendingGoogleAuth awaiting_role) (JStr ''acharya'') awaiting_role"

definition second_popup :: awaited where
  "second_popup =
     Returns (JObj [(''user'', JObj [(''uid'', JStr ''u2''), (''email'', JStr ''b@x.com''),
                                     (''displayName'', JStr ''B''), (''photoURL'', JNull)]),
                    (''idToken'', JStr ''tok456'')])"

definition login_while_exchanging :: "outcome \<times> auth_state" where
  "login_while_exchanging = loginWithGoogle JNull second_popup (state_of exchanging)"

text \<open>
  The exchange of \<^verbatim>\<open>tok123\<close> fails on the network after that second sign-in.
\<close>

definition exchange_fails_late :: "outcome \<times> auth_state" where
  "exchange_fails_late = completeGoogleLogin_resume network_failure (snd login_while_exchanging)"

text \<open>
  After the popup sign-in the holder is emptied by \<^verbatim>\<open>cancelGoogleLogin\<close>; a
  \<^verbatim>\<open>completeGoogleLogin\<close> kept from the render before, which captured the credential, is
  then called.
\<close>

definition stale_complete :: progress where
  "stale_complete =
     completeGoogleLogin_start (pendingGoogleAuth awaiting_role) (JStr ''grihasta'')
       (cancelGoogleLogin awaiting_role)"

text \<open>
  The provider has just mounted and \<^verbatim>\<open>loginWithGoogle('tok2')\<close> has put a credential into
  the holder; the \<^verbatim>\<open>completeGoogleLogin\<close> of the first render, which captured \<^verbatim>\<open>null\<close>, is
  called.
\<close>

definition early_complete :: "outcome \<times> auth_state" where
  "early_complete =
     completeGoogleLogin None (JStr ''grihasta'') (backend_response new_user)
       (snd (loginWithGoogle (JStr ''tok2'') popup_result (initial_state Map.empty)))"




section \<open>Auxiliary facts\<close>

lemmas prims = emit_def setUser_def setLoading_def setPendingGoogleAuth_def
  localStorage_getItem_def localStorage_setItem_def localStorage_removeItem_def
  navigate_def toast_success_def toast_error_def toast_info_def
  console_log_def console_warn_def console_error_def api_post_def api_get_def

lemma navigations_append: "navigations (xs @ ys) = navigations xs @ navigations ys"
  by (induction xs rule: navigations.induct) simp_all

lemma api_requests_append: "api_requests (xs @ ys) = api_requests xs @ api_requests ys"
  by (induction xs rule: api_requests.induct) simp_all

lemma pending_writes_append: "pending_writes (xs @ ys) = pending_writes xs @ pending_writes ys"
  by (induction xs rule: pending_writes.induct) simp_all

lemma truthy_js_or: "truthy (js_or a b) = (truthy a \<or> truthy b)"
  by (simp add: js_or_def)

lemma quota_error_response:
  "get_field quota_exceeded_error ''response'' = Inr JUndefined"
  by (simp add: get_field_def quota_exceeded_error_def)

lemma quota_error_message:
  "get_field quota_exceeded_error ''message'' = Inr (JStr ''The quota has been exceeded.'')"
  by (simp add: get_field_def quota_exceeded_error_def)

text \<open>The request of \<^verbatim>\<open>handleGoogleLogin\<close> adds two effects and touches nothing else.\<close>

lemma handleGoogleLogin_request_eq:
  "handleGoogleLogin_request idTok role s =
     s\<lparr>effects := effects s @
          [ConsoleLog ''Sending Google auth to backend with role:'',
           ApiPost ''/auth/google'' (JObj [(''id_token'', idTok), (''role'', role)])]\<rparr>"
  by (simp add: handleGoogleLogin_request_def prims)

lemma accepts_tokens_effects:
  "accepts_tokens a r (s\<lparr>effects := es\<rparr>) = accepts_tokens a r s"
  by (simp add: accepts_tokens_def)

text \<open>
  What \<^verbatim>\<open>handleGoogleLogin\<close> does from the settling of its request: when the exchange yields
  the tokens and the user and both writes are accepted; when a write is refused; and
  when the request or the reading of the response throws \<open>e\<close>.
\<close>

lemma handleGoogleLogin_settle_success:
  assumes "exchange reply = Inr (a, r, u)" and "accepts_tokens a r s"
  shows "handleGoogleLogin_settle reply s =
     (Resolved JUndefined,
      s\<lparr>user := u,
        localStorage := (localStorage s)(''accessToken'' \<mapsto> to_string a, ''refreshToken'' \<mapsto> to_string r),
        effects := effects s @
          [ConsoleLog ''Google auth successful, user data:'',
           StorageSet ''accessToken'' (to_string a),
           StorageSet ''refreshToken'' (to_string r),
           SetUser u,
           ToastSuccess (JStr ''Welcome to Savitara!''),
           ConsoleLog ''Navigating to:'',
           Navigate (if truthy (js_or (field u ''onboarded'') (field u ''onboarding_completed''))
                     then ''/'' else ''/onboarding'') True]\<rparr>)"
  using assms
  by (simp add: handleGoogleLogin_settle_def handleGoogleLogin_try_def accepts_tokens_def
      prims Let_def)

lemma handleGoogleLogin_settle_write_refused:
  assumes "exchange reply = Inr (a, r, u)" and "\<not> accepts_tokens a r s"
  shows "handleGoogleLogin_settle reply s =
     (Rejected quota_exceeded_error,
      (if quota_allows s (localStorage s) ''accessToken'' (to_string a)
       then s\<lparr>localStorage := (localStorage s)(''accessToken'' \<mapsto> to_string a),
              effects := effects s @
                [ConsoleLog ''Google auth successful, user data:'',
                 StorageSet ''accessToken'' (to_string a),
                 ConsoleError ''Backend login failed:'',
                 ToastError (JStr ''Authentication failed'')]\<rparr>
       else s\<lparr>effects := effects s @
                [ConsoleLog ''Google auth successful, user data:'',
                 ConsoleError ''Backend login failed:'',
                 ToastError (JStr ''Authentication failed'')]\<rparr>))"
  using assms
  by (simp add: handleGoogleLogin_settle_def handleGoogleLogin_try_def accepts_tokens_def
      quota_error_response opt_field_def js_or_def prims Let_def)

lemma handleGoogleLogin_settle_failure:
  assumes "exchange reply = Inl e"
  shows "handleGoogleLogin_settle reply s =
     (Rejected (case get_field e ''response'' of Inl te \<Rightarrow> te | Inr resp \<Rightarrow> e),
      s\<lparr>effects := effects s @
          [ConsoleError ''Backend login failed:''] @
          (case get_field e ''response'' of
             Inl te \<Rightarrow> []
           | Inr resp \<Rightarrow>
               [ToastError (js_or (js_or (opt_field (opt_field resp ''data'') ''detail'')
                                         (opt_field (opt_field resp ''data'') ''message''))
                                  (JStr ''Authentication failed''))])\<rparr>)"
  using assms
  by (simp add: handleGoogleLogin_settle_def handleGoogleLogin_try_def prims Let_def
      split: sum.splits)

text \<open>The same for the whole call.\<close>

lemma handleGoogleLogin_success:
  assumes "exchange reply = Inr (a, r, u)" and "accepts_tokens a r s"
  shows "handleGoogleLogin idTok role reply s =
     (Resolved JUndefined,
      s\<lparr>user := u,
        localStorage := (localStorage s)(''accessToken'' \<mapsto> to_string a, ''refreshToken'' \<mapsto> to_string r),
        effects := effects s @
          [ConsoleLog ''Sending Google auth to backend with role:'',
           ApiPost ''/auth/google'' (JObj [(''id_token'', idTok), (''role'', role)]),
           ConsoleLog ''Google auth successful, user data:'',
           StorageSet ''accessToken'' (to_string a),
           StorageSet ''refreshToken'' (to_string r),
           SetUser u,
           ToastSuccess (JStr ''Welcome to Savitara!''),
           ConsoleLog ''Navigating to:'',
           Navigate (if truthy (js_or (field u ''onboarded'') (field u ''onboarding_completed''))
                     then ''/'' else ''/onboarding'') True]\<rparr>)"
proof -
  have acc: "accepts_tokens a r (handleGoogleLogin_request idTok role s)"
    using assms(2) by (simp add: handleGoogleLogin_request_eq accepts_tokens_effects)
  show ?thesis
    by (simp add: handleGoogleLogin_def handleGoogleLogin_settle_success [OF assms(1) acc])
       (simp add: handleGoogleLogin_request_eq)
qed

lemma handleGoogleLogin_write_refused:
  assumes "exchange reply = Inr (a, r, u)" and "\<not> accepts_tokens a r s"
  shows "handleGoogleLogin idTok role reply s =
     (Rejected quota_exceeded_error,
      (if quota_allows s (localStorage s) ''accessToken'' (to_string a)
       then s\<lparr>localStorage := (localStorage s)(''accessToken'' \<mapsto> to_string a),
              effects := effects s @
                [ConsoleLog ''Sending Google auth to backend with role:'',
                 ApiPost ''/auth/google'' (JObj [(''id_token'', idTok), (''role'', role)]),
                 ConsoleLog ''Google auth successful, user data:'',
                 StorageSet ''accessToken'' (to_string a),
                 ConsoleError ''Backend login failed:'',
                 ToastError (JStr ''Authentication failed'')]\<rparr>
       else s\<lparr>effects := effects s @
                [ConsoleLog ''Sending Google auth to backend with role:'',
                 ApiPost ''/auth/google'' (JObj [(''id_token'', idTok), (''role'', role)]),
                 ConsoleLog ''Google auth successful, user data:'',
                 ConsoleError ''Backend login failed:'',
                 ToastError (JStr ''Authentication failed'')]\<rparr>))"
proof -
  have acc: "\<not> accepts_tokens a r (handleGoogleLogin_request idTok role s)"
    using assms(2) by (simp add: handleGoogleLogin_request_eq accepts_tokens_effects)
  show ?thesis
    by (simp add: handleGoogleLogin_def handleGoogleLogin_settle_write_refused [OF assms(1) acc])
       (simp add: handleGoogleLogin_request_eq)
qed

lemma handleGoogleLogin_failure:
  assumes "exchange reply = Inl e"
  shows "handleGoogleLogin idTok role reply s =
     (Rejected (case get_field e ''response'' of Inl te \<Rightarrow> te | Inr resp \<Rightarrow> e),
      s\<lparr>effects := effects s @
          [ConsoleLog ''Sending Google auth to backend with role:'',
           ApiPost ''/auth/google'' (JObj [(''id_token'', idTok), (''role'', role)]),
           ConsoleError ''Backend login failed:''] @
          (case get_field e ''response'' of
             Inl te \<Rightarrow> []
           | Inr resp \<Rightarrow>
               [ToastError (js_or (js_or (opt_field (opt_field resp ''data'') ''detail'')
                                         (opt_field (opt_field resp ''data'') ''message''))
                                  (JStr ''Authentication failed''))])\<rparr>)"
  by (simp add: handleGoogleLogin_def handleGoogleLogin_settle_failure [OF assms])
     (simp add: handleGoogleLogin_request_eq)

text \<open>What \<^verbatim>\<open>completeGoogleLogin\<close> does to the holder from the settling of its request.\<close>

lemma completeGoogleLogin_resume_rejected:
  assumes "handleGoogleLogin_settle reply s = (Rejected error, s1)"
  shows "is_rejected (fst (completeGoogleLogin_resume reply s))
         \<and> pendingGoogleAuth (snd (completeGoogleLogin_resume reply s)) = pendingGoogleAuth s1
         \<and> localStorage (snd (completeGoogleLogin_resume reply s)) = localStorage s1
         \<and> quota_allows (snd (completeGoogleLogin_resume reply s)) = quota_allows s1
         \<and> api_requests (effects (snd (completeGoogleLogin_resume reply s))) = api_requests (effects s1)"
  using assms
  by (simp add: completeGoogleLogin_resume_def api_requests_append prims Let_def split: sum.splits)

lemma exchange_backend_response:
  "exchange (backend_response fs) = Inr (JStr ''acc1'', JStr ''ref1'', JObj fs)"
  by (simp add: exchange_def backend_response_def google_response_fields_def get_field_def)

lemma exchange_network_failure:
  "exchange network_failure = Inl (JObj [(''message'', JStr ''Network Error'')])"
  by (simp add: exchange_def network_failure_def)

lemma awaiting_role_eq:
  "awaiting_role =
     \<lparr>user = JNull, loading = True,
      pendingGoogleAuth = Some \<lparr>idToken = JStr ''tok123'', userEmail = JStr ''a@x.com''\<rparr>,
      localStorage = Map.empty,
      quota_allows = (\<lambda>store k v. True),
      effects = [FirebaseGoogleSignIn,
                 SetPendingGoogleAuth (Some \<lparr>idToken = JStr ''tok123'', userEmail = JStr ''a@x.com''\<rparr>)]\<rparr>"
  by (simp add: awaiting_role_def loginWithGoogle_def loginWithGoogle_start_def
      loginWithGoogle_resume_def loginWithGoogle_store_def popup_result_def initial_state_def
      opt_field_def prims)

lemma accepts_tokens_awaiting_role: "accepts_tokens a r awaiting_role"
  by (simp add: accepts_tokens_def awaiting_role_eq)

lemma refuses_tokens_nearly_full: "\<not> accepts_tokens a r awaiting_role_nearly_full"
  by (simp add: accepts_tokens_def awaiting_role_nearly_full_def awaiting_role_eq room_for_one_def)

lemma exchanging_eq:
  "exchanging = Awaiting
     \<lparr>user = JNull, loading = True,
      pendingGoogleAuth = Some \<lparr>idToken = JStr ''tok123'', userEmail = JStr ''a@x.com''\<rparr>,
      localStorage = Map.empty,
      quota_allows = (\<lambda>store k v. True),
      effects = [FirebaseGoogleSignIn,
                 SetPendingGoogleAuth (Some \<lparr>idToken = JStr ''tok123'', userEmail = JStr ''a@x.com''\<rparr>),
                 ConsoleLog ''Sending Google auth to backend with role:'',
                 ApiPost ''/auth/google'' (JObj [(''id_token'', JStr ''tok123''), (''role'', JStr ''acharya'')])]\<rparr>"
  by (simp add: exchanging_def completeGoogleLogin_start_def handleGoogleLogin_request_def
      awaiting_role_eq prims)

lemma login_while_exchanging_eq:
  "login_while_exchanging =
     (Resolved (JObj [(''needsRoleSelection'', JBool True), (''userEmail'', JStr ''b@x.com'')]),
      \<lparr>user = JNull, loading = True,
       pendingGoogleAuth = Some \<lparr>idToken = JStr ''tok456'', userEmail = JStr ''b@x.com''\<rparr>,
       localStorage = Map.empty,
       quota_allows = (\<lambda>store k v. True),
       effects = [FirebaseGoogleSignIn,
                  SetPendingGoogleAuth (Some \<lparr>idToken = JStr ''tok123'', userEmail = JStr ''a@x.com''\<rparr>),
                  ConsoleLog ''Sending Google auth to backend with role:'',
                  ApiPost ''/auth/google'' (JObj [(''id_token'', JStr ''tok123''), (''role'', JStr ''acharya'')]),
                  FirebaseGoogleSignIn,
                  SetPendingGoogleAuth (Some \<lparr>idToken = JStr ''tok456'', userEmail = JStr ''b@x.com''\<rparr>)]\<rparr>)"
  by (simp add: login_while_exchanging_def exchanging_eq second_popup_def loginWithGoogle_def
      loginWithGoogle_start_def loginWithGoogle_resume_def loginWithGoogle_store_def
      opt_field_def prims)

text \<open>
  What each operation does to the storage: nothing, or it writes both tokens, or it
  removes both, or (only on a browser that refuses some write) it writes \<^verbatim>\<open>accessToken\<close>
  alone. No operation changes what the browser has room for.
\<close>

lemma tokens_paired_set:
  "tokens_paired (m(''accessToken'' \<mapsto> a, ''refreshToken'' \<mapsto> r))"
  by (simp add: tokens_paired_def)

lemma tokens_paired_removed:
  "tokens_paired (m(''accessToken'' := None, ''refreshToken'' := None))"
  by (simp add: tokens_paired_def)














lemma unwrapped_network_failure:
  "unwrapped network_failure = Inl (JObj [(''message'', JStr ''Network Error'')])"
  by (simp add: unwrapped_def network_failure_def)

section \<open>Properties\<close>

subsection \<open>The pending-auth holder after completing or cancelling\<close>

text \<open>
  C1, as the code has it. \<^verbatim>\<open>completeGoogleLogin\<close> empties the pending-auth holder in one
  place only: inside its \<^verbatim>\<open>try\<close> block, after the awaited \<^verbatim>\<open>handleGoogleLogin\<close> has returned.
  So, in whatever state the call starts and in whatever state its request settles
  (other calls may have run in between):
  up to its request the call leaves the holder as it is, and it goes on to the request
  exactly when the render that created it captured a credential;
  when the exchange yields the tokens and the user and the storage takes both tokens,
  the call resolves and the holder is empty afterwards;
  when the exchange fails, or a write of a token is refused, the call rejects and the
  holder holds what it held when the request settled: the \<^verbatim>\<open>catch\<close> block does not touch
  it;
  and a call whose render captured no credential resolves at once and leaves the holder
  as it is. After \<^verbatim>\<open>cancelGoogleLogin\<close> the holder is empty.
\<close>

theorem completeGoogleLogin_holder:
  "pendingGoogleAuth (state_of (completeGoogleLogin_start captured role s)) = pendingGoogleAuth s
   \<and> is_awaiting (completeGoogleLogin_start captured role s) = (captured \<noteq> None)
   \<and> (case exchange reply of
         Inr (access_token, refresh_token, userData) \<Rightarrow>
           if accepts_tokens access_token refresh_token s
           then fst (completeGoogleLogin_resume reply s) = Resolved JUndefined
                \<and> pendingGoogleAuth (snd (completeGoogleLogin_resume reply s)) = None
           else is_rejected (fst (completeGoogleLogin_resume reply s))
                \<and> pendingGoogleAuth (snd (completeGoogleLogin_resume reply s)) = pendingGoogleAuth s
       | Inl e \<Rightarrow>
           is_rejected (fst (completeGoogleLogin_resume reply s))
           \<and> pendingGoogleAuth (snd (completeGoogleLogin_resume reply s)) = pendingGoogleAuth s)
   \<and> fst (completeGoogleLogin None role reply s) = Resolved JUndefined
   \<and> pendingGoogleAuth (snd (completeGoogleLogin None role reply s)) = pendingGoogleAuth s
   \<and> pendingGoogleAuth (cancelGoogleLogin s) = None"
proof -
  have start: "pendingGoogleAuth (state_of (completeGoogleLogin_start captured role s)) = pendingGoogleAuth s
               \<and> is_awaiting (completeGoogleLogin_start captured role s) = (captured \<noteq> None)"
    by (simp add: completeGoogleLogin_start_def handleGoogleLogin_request_eq prims
        split: option.splits)
  have guard: "fst (completeGoogleLogin None role reply s) = Resolved JUndefined
               \<and> pendingGoogleAuth (snd (completeGoogleLogin None role reply s)) = pendingGoogleAuth s"
    by (simp add: completeGoogleLogin_def completeGoogleLogin_start_def prims)
  have cancel: "pendingGoogleAuth (cancelGoogleLogin s) = None"
    by (simp add: cancelGoogleLogin_def prims)
  have resume: "case exchange reply of
         Inr (access_token, refresh_token, userData) \<Rightarrow>
           if accepts_tokens access_token refresh_token s
           then fst (completeGoogleLogin_resume reply s) = Resolved JUndefined
                \<and> pendingGoogleAuth (snd (completeGoogleLogin_resume reply s)) = None
           else is_rejected (fst (completeGoogleLogin_resume reply s))
                \<and> pendingGoogleAuth (snd (completeGoogleLogin_resume reply s)) = pendingGoogleAuth s
       | Inl e \<Rightarrow>
           is_rejected (fst (completeGoogleLogin_resume reply s))
           \<and> pendingGoogleAuth (snd (completeGoogleLogin_resume reply s)) = pendingGoogleAuth s"
  proof (cases "exchange reply")
    case (Inr got)
    obtain a r u where "got = (a, r, u)" by (cases got) auto
    with Inr have ex: "exchange reply = Inr (a, r, u)" by simp
    show ?thesis
    proof (cases "accepts_tokens a r s")
      case True
      show ?thesis
        by (simp add: ex True completeGoogleLogin_resume_def
            handleGoogleLogin_settle_success [OF ex True] prims)
    next
      case False
      from completeGoogleLogin_resume_rejected [OF handleGoogleLogin_settle_write_refused [OF ex False]]
      show ?thesis by (simp add: ex False)
    qed
  next
    case (Inl e)
    from completeGoogleLogin_resume_rejected [OF handleGoogleLogin_settle_failure [OF Inl]]
    show ?thesis by (simp add: Inl)
  qed
  from start resume guard cancel show ?thesis by blast
qed

text \<open>
  The theorem on the exchange of the popup credential \<^verbatim>\<open>tok123\<close>: when the backend
  answers, the call resolves and the holder is empty; when the request fails after a
  second sign-in has put \<^verbatim>\<open>tok456\<close> into the holder, the call rejects and the holder holds
  \<^verbatim>\<open>tok456\<close>.
\<close>

theorem completeGoogleLogin_holder_witness:
  "pendingGoogleAuth (state_of exchanging) =
     Some \<lparr>idToken = JStr ''tok123'', userEmail = JStr ''a@x.com''\<rparr>
   \<and> fst (completeGoogleLogin_resume (backend_response new_user) (state_of exchanging)) = Resolved JUndefined
   \<and> pendingGoogleAuth (snd (completeGoogleLogin_resume (backend_response new_user) (state_of exchanging)))
       = None
   \<and> is_rejected (fst exchange_fails_late)
   \<and> pendingGoogleAuth (snd exchange_fails_late) =
       Some \<lparr>idToken = JStr ''tok456'', userEmail = JStr ''b@x.com''\<rparr>
   \<and> pendingGoogleAuth (cancelGoogleLogin awaiting_role) = None"
  using completeGoogleLogin_holder
          [where captured = "pendingGoogleAuth awaiting_role" and role = "JStr ''acharya''"
             and s = "state_of exchanging" and reply = "backend_response new_user"]
        completeGoogleLogin_holder
          [where captured = "pendingGoogleAuth awaiting_role" and role = "JStr ''acharya''"
             and s = "snd login_while_exchanging" and reply = network_failure]
        completeGoogleLogin_holder
          [where captured = "pendingGoogleAuth awaiting_role" and role = "JStr ''acharya''"
             and s = awaiting_role and reply = network_failure]
  by (simp add: exchange_backend_response exchange_network_failure exchange_fails_late_def
      exchanging_eq login_while_exchanging_eq accepts_tokens_def)

text \<open>
  C1 as stated fails. With the popup credential in the holder and a request that fails
  on the network, \<^verbatim>\<open>completeGoogleLogin('acharya')\<close> rejects and the holder is not empty.
  And a \<^verbatim>\<open>completeGoogleLogin\<close> whose render captured \<^verbatim>\<open>null\<close> resolves while a credential put
  there since stays in the holder.
\<close>

theorem completeGoogleLogin_failure_keeps_credential:
  "pendingGoogleAuth awaiting_role = Some \<lparr>idToken = JStr ''tok123'', userEmail = JStr ''a@x.com''\<rparr>
   \<and> is_rejected (fst (completeGoogleLogin (pendingGoogleAuth awaiting_role) (JStr ''acharya'')
                         network_failure awaiting_role))
   \<and> pendingGoogleAuth (snd (completeGoogleLogin (pendingGoogleAuth awaiting_role) (JStr ''acharya'')
                                network_failure awaiting_role)) \<noteq> None
   \<and> fst early_complete = Resolved JUndefined
   \<and> pendingGoogleAuth (snd early_complete) = Some \<lparr>idToken = JStr ''tok2'', userEmail = JNull\<rparr>"
  by (simp add: awaiting_role_eq completeGoogleLogin_def completeGoogleLogin_start_def
      completeGoogleLogin_resume_def handleGoogleLogin_settle_failure [OF exchange_network_failure]
      early_complete_def loginWithGoogle_def loginWithGoogle_start_def loginWithGoogle_store_def
      initial_state_def get_field_def handleGoogleLogin_request_eq prims)

subsection \<open>Completing with nothing pending\<close>

text \<open>
  C2, as the code has it. The guard of \<^verbatim>\<open>completeGoogleLogin(role)\<close> tests the
  \<^verbatim>\<open>pendingGoogleAuth\<close> constant of the render that created the function, not the holder.
  When that constant is \<^verbatim>\<open>null\<close>, the call shows the error toast
  \<^verbatim>\<open>No pending authentication. Please try again.\<close> and returns normally: its promise
  resolves with \<^verbatim>\<open>undefined\<close>, no error reaches the caller. Nothing else happens, whatever
  the holder contains: no request is sent to the backend, and the user, the loading
  flag, the holder and the storage are unchanged. When the constant is a credential, the
  call sends \<^verbatim>\<open>POST /auth/google\<close> with that credential, whatever the holder contains.
\<close>

theorem completeGoogleLogin_nothing_pending:
  "completeGoogleLogin None role reply s =
     (Resolved JUndefined,
      s\<lparr>effects := effects s @
           [ToastError (JStr ''No pending authentication. Please try again.'')]\<rparr>)
   \<and> completeGoogleLogin_start None role s =
       Finished (Resolved JUndefined)
         (s\<lparr>effects := effects s @
              [ToastError (JStr ''No pending authentication. Please try again.'')]\<rparr>)
   \<and> completeGoogleLogin_start (Some pending) role s =
       Awaiting
         (s\<lparr>effects := effects s @
              [ConsoleLog ''Sending Google auth to backend with role:'',
               ApiPost ''/auth/google'' (JObj [(''id_token'', idToken pending), (''role'', role)])]\<rparr>)"
  by (simp add: completeGoogleLogin_def completeGoogleLogin_start_def
      handleGoogleLogin_request_eq prims)

text \<open>
  The theorem on a freshly mounted provider with an empty storage, and on the provider
  whose holder has received \<^verbatim>\<open>tok2\<close> since the render of the function.
\<close>

theorem completeGoogleLogin_nothing_pending_witness:
  "fst (completeGoogleLogin None (JStr ''grihasta'') (backend_response new_user)
          (initial_state Map.empty)) = Resolved JUndefined
   \<and> effects (snd (completeGoogleLogin None (JStr ''grihasta'') (backend_response new_user)
                     (initial_state Map.empty))) =
       [ToastError (JStr ''No pending authentication. Please try again.'')]
   \<and> api_requests (effects (snd early_complete)) = []
   \<and> localStorage (snd early_complete) = Map.empty
   \<and> user (snd early_complete) = JNull"
  using completeGoogleLogin_nothing_pending
          [where role = "JStr ''grihasta''" and reply = "backend_response new_user"
             and s = "initial_state Map.empty"]
        completeGoogleLogin_nothing_pending
          [where role = "JStr ''grihasta''" and reply = "backend_response new_user"
             and s = "snd (loginWithGoogle (JStr ''tok2'') popup_result (initial_state Map.empty))"]
  by (simp add: initial_state_def early_complete_def loginWithGoogle_def
      loginWithGoogle_start_def loginWithGoogle_store_def prims)

text \<open>
  C2 as stated fails. On a freshly mounted provider \<^verbatim>\<open>completeGoogleLogin('grihasta')\<close> does
  not reject. And with the holder emptied by \<^verbatim>\<open>cancelGoogleLogin\<close>, a \<^verbatim>\<open>completeGoogleLogin\<close>
  kept from the render before goes on to the request: it sends \<^verbatim>\<open>POST /auth/google\<close> with
  the credential it captured.
\<close>

theorem completeGoogleLogin_nothing_pending_resolves:
  "\<not> is_rejected (fst (completeGoogleLogin None (JStr ''grihasta'') (backend_response new_user)
                         (initial_state Map.empty)))
   \<and> pendingGoogleAuth (cancelGoogleLogin awaiting_role) = None
   \<and> is_awaiting stale_complete
   \<and> api_requests (effects (state_of stale_complete)) =
       [ApiPost ''/auth/google'' (JObj [(''id_token'', JStr ''tok123''), (''role'', JStr ''grihasta'')])]"
  by (simp add: completeGoogleLogin_def completeGoogleLogin_start_def initial_state_def
      stale_complete_def cancelGoogleLogin_def awaiting_role_eq handleGoogleLogin_request_eq prims)

subsection \<open>Navigation after the exchange\<close>

text \<open>
  C3. When the exchange yields the tokens and the user and the storage takes both
  tokens, \<^verbatim>\<open>handleGoogleLogin\<close> resolves and the effects it adds are, in this order: the
  request, the write of \<^verbatim>\<open>accessToken\<close>, the write of \<^verbatim>\<open>refreshToken\<close>, the setting of the
  user, the welcome toast, a console line and, last, the navigation. Both tokens are
  then in the storage and the user is the one returned; between the setting of the user
  and the navigation there are only the toast and the console call, no timer. When the
  exchange fails, and also when a write of a token is refused, \<^verbatim>\<open>handleGoogleLogin\<close>
  rejects and adds no navigation to the trace.
\<close>

theorem handleGoogleLogin_settles_then_navigates:
  "case exchange reply of
     Inr (access_token, refresh_token, userData) \<Rightarrow>
       if accepts_tokens access_token refresh_token s
       then
         fst (handleGoogleLogin idTok role reply s) = Resolved JUndefined
         \<and> effects (snd (handleGoogleLogin idTok role reply s)) =
             effects s @
             [ConsoleLog ''Sending Google auth to backend with role:'',
              ApiPost ''/auth/google'' (JObj [(''id_token'', idTok), (''role'', role)]),
              ConsoleLog ''Google auth successful, user data:'',
              StorageSet ''accessToken'' (to_string access_token),
              StorageSet ''refreshToken'' (to_string refresh_token),
              SetUser userData,
              ToastSuccess (JStr ''Welcome to Savitara!''),
              ConsoleLog ''Navigating to:'',
              Navigate (if truthy (js_or (field userData ''onboarded'')
                                         (field userData ''onboarding_completed''))
                        then ''/'' else ''/onboarding'') True]
         \<and> localStorage (snd (handleGoogleLogin idTok role reply s)) ''accessToken'' =
             Some (to_string access_token)
         \<and> localStorage (snd (handleGoogleLogin idTok role reply s)) ''refreshToken'' =
             Some (to_string refresh_token)
         \<and> user (snd (handleGoogleLogin idTok role reply s)) = userData
       else
         is_rejected (fst (handleGoogleLogin idTok role reply s))
         \<and> navigations (effects (snd (handleGoogleLogin idTok role reply s))) = navigations (effects s)
   | Inl e \<Rightarrow>
       is_rejected (fst (handleGoogleLogin idTok role reply s))
       \<and> navigations (effects (snd (handleGoogleLogin idTok role reply s))) = navigations (effects s)"
proof (cases "exchange reply")
  case (Inr got)
  obtain a r u where "got = (a, r, u)" by (cases got) auto
  with Inr have ex: "exchange reply = Inr (a, r, u)" by simp
  show ?thesis
  proof (cases "accepts_tokens a r s")
    case True
    show ?thesis by (simp add: ex True handleGoogleLogin_success [OF ex True])
  next
    case False
    show ?thesis
      by (simp add: ex False handleGoogleLogin_write_refused [OF ex False] navigations_append)
  qed
next
  case (Inl e)
  show ?thesis
    by (simp add: Inl handleGoogleLogin_failure [OF Inl] navigations_append split: sum.splits)
qed

text \<open>
  The theorem on the credential of the popup sign-in: once with a backend that answers
  for a user who is not onboarded, once with a request that fails on the network, once
  on a browser that has room for one token only.
\<close>

theorem handleGoogleLogin_settles_then_navigates_witness:
  "fst (handleGoogleLogin (JStr ''tok123'') (JStr ''acharya'') (backend_response new_user) awaiting_role)
     = Resolved JUndefined
   \<and> effects (snd (handleGoogleLogin (JStr ''tok123'') (JStr ''acharya'') (backend_response new_user)
                     awaiting_role)) =
       [FirebaseGoogleSignIn,
        SetPendingGoogleAuth (Some \<lparr>idToken = JStr ''tok123'', userEmail = JStr ''a@x.com''\<rparr>),
        ConsoleLog ''Sending Google auth to backend with role:'',
        ApiPost ''/auth/google'' (JObj [(''id_token'', JStr ''tok123''), (''role'', JStr ''acharya'')]),
        ConsoleLog ''Google auth successful, user data:'',
        StorageSet ''accessToken'' ''acc1'',
        StorageSet ''refreshToken'' ''ref1'',
        SetUser (JObj new_user),
        ToastSuccess (JStr ''Welcome to Savitara!''),
        ConsoleLog ''Navigating to:'',
        Navigate ''/onboarding'' True]
   \<and> is_rejected (fst (handleGoogleLogin (JStr ''tok123'') (JStr ''acharya'') network_failure awaiting_role))
   \<and> navigations (effects (snd (handleGoogleLogin (JStr ''tok123'') (JStr ''acharya'') network_failure
                                  awaiting_role))) = []
   \<and> is_rejected (fst (handleGoogleLogin (JStr ''tok123'') (JStr ''acharya'') (backend_response new_user)
                         awaiting_role_nearly_full))
   \<and> navigations (effects (snd (handleGoogleLogin (JStr ''tok123'') (JStr ''acharya'')
                                  (backend_response new_user) awaiting_role_nearly_full))) = []"
  using handleGoogleLogin_settles_then_navigates
          [where reply = "backend_response new_user" and idTok = "JStr ''tok123''"
             and role = "JStr ''acharya''" and s = awaiting_role]
        handleGoogleLogin_settles_then_navigates
          [where reply = network_failure and idTok = "JStr ''tok123''"
             and role = "JStr ''acharya''" and s = awaiting_role]
        handleGoogleLogin_settles_then_navigates
          [where reply = "backend_response new_user" and idTok = "JStr ''tok123''"
             and role = "JStr ''acharya''" and s = awaiting_role_nearly_full]
  by (simp add: exchange_backend_response exchange_network_failure accepts_tokens_awaiting_role
      refuses_tokens_nearly_full)
     (simp add: awaiting_role_eq awaiting_role_nearly_full_def new_user_def js_or_def)

subsection \<open>The destination of the navigation\<close>

text \<open>
  C4, as the code has it. After a successful exchange \<^verbatim>\<open>handleGoogleLogin\<close> issues exactly
  one navigation, with \<^verbatim>\<open>replace: true\<close> (and none at all when the storage refuses a token).
  Its destination is the home path \<^verbatim>\<open>/\<close> exactly when \<^verbatim>\<open>onboarded\<close> or \<^verbatim>\<open>onboarding_completed\<close>
  of the freshly returned user record is truthy, and the onboarding path \<^verbatim>\<open>/onboarding\<close>
  otherwise. So for a record without a truthy \<^verbatim>\<open>onboarding_completed\<close> it is \<^verbatim>\<open>onboarded\<close>
  that decides.
\<close>

theorem handleGoogleLogin_destination:
  assumes "exchange reply = Inr (access_token, refresh_token, userData)"
  shows "navigations (effects (snd (handleGoogleLogin idTok role reply s))) =
           navigations (effects s) @
           (if accepts_tokens access_token refresh_token s
            then [(if truthy (field userData ''onboarded'')
                        \<or> truthy (field userData ''onboarding_completed'')
                   then ''/'' else ''/onboarding'', True)]
            else [])"
proof (cases "accepts_tokens access_token refresh_token s")
  case True
  show ?thesis
    by (simp add: True handleGoogleLogin_success [OF assms True] navigations_append truthy_js_or)
next
  case False
  show ?thesis
    by (simp add: False handleGoogleLogin_write_refused [OF assms False] navigations_append)
qed

text \<open>The theorem for a user who is not onboarded: the one navigation replaces to \<^verbatim>\<open>/onboarding\<close>.\<close>

theorem handleGoogleLogin_destination_witness:
  "navigations (effects (snd (handleGoogleLogin (JStr ''tok123'') (JStr ''acharya'')
                                (backend_response new_user) awaiting_role))) = [(''/onboarding'', True)]"
proof -
  have ex: "exchange (backend_response new_user) = Inr (JStr ''acc1'', JStr ''ref1'', JObj new_user)"
    by (rule exchange_backend_response)
  from handleGoogleLogin_destination
         [OF ex, where idTok = "JStr ''tok123''" and role = "JStr ''acharya''" and s = awaiting_role]
  show ?thesis by (simp add: accepts_tokens_awaiting_role) (simp add: awaiting_role_eq new_user_def)
qed

text \<open>
  C4 as stated fails: a user record with \<^verbatim>\<open>onboarded: false\<close> and
  \<^verbatim>\<open>onboarding_completed: true\<close> is sent to the home path, not to the onboarding path.
\<close>

theorem handleGoogleLogin_legacy_flag_goes_home:
  "field (JObj legacy_flag_user) ''onboarded'' = JBool False
   \<and> navigations (effects (snd (handleGoogleLogin (JStr ''tok123'') (JStr ''grihasta'')
                                  (backend_response legacy_flag_user) awaiting_role))) = [(''/'', True)]"
  by (simp add: handleGoogleLogin_success [OF exchange_backend_response accepts_tokens_awaiting_role]
      navigations_append)
     (simp add: awaiting_role_eq legacy_flag_user_def js_or_def)

subsection \<open>A second sign-in while a flow is in flight\<close>




subsection \<open>The stored tokens as a pair\<close>




subsection \<open>A stored session that the backend no longer accepts\<close>

text \<open>
  C7. Let both stored tokens be present and non-empty, and let the identity check fail:
  the request \<^verbatim>\<open>GET /auth/me\<close> throws, or its response cannot be unwrapped. Then \<^verbatim>\<open>checkAuth\<close>
  removes both tokens, sets the in-memory user to \<^verbatim>\<open>null\<close> and clears the loading flag, and
  does nothing else but log the error. So does the start-up effect \<^verbatim>\<open>initAuth\<close>, which
  goes on to \<^verbatim>\<open>checkAuth\<close> when \<^verbatim>\<open>checkRedirectResult()\<close> returns \<^verbatim>\<open>null\<close>, as it does when
  there is no redirect to pick up.
\<close>

theorem checkAuth_failed_identity_check:
  assumes "localStorage s ''accessToken'' = Some a" and "a \<noteq> []"
    and "localStorage s ''refreshToken'' = Some r" and "r \<noteq> []"
    and "unwrapped me = Inl e"
  shows "checkAuth me s =
     (Resolved JUndefined,
      s\<lparr>user := JNull, loading := False,
        localStorage := (localStorage s)(''accessToken'' := None, ''refreshToken'' := None),
        effects := effects s @
          [ApiGet ''/auth/me'', ConsoleError ''Auth check failed:'',
           StorageRemove ''accessToken'', StorageRemove ''refreshToken'',
           SetUser JNull, SetLoading False]\<rparr>)
     \<and> initAuth (Returns JNull) me s = checkAuth me (emit CheckRedirectResult s)
     \<and> localStorage (snd (initAuth (Returns JNull) me s)) ''accessToken'' = None
     \<and> localStorage (snd (initAuth (Returns JNull) me s)) ''refreshToken'' = None
     \<and> user (snd (initAuth (Returns JNull) me s)) = JNull"
  using assms by (simp add: initAuth_def opt_field_def checkAuth_def prims Let_def)

text \<open>
  The theorem at the start of the application on a browser that holds a session, when
  the identity check fails on the network.
\<close>

theorem checkAuth_failed_identity_check_witness:
  "initAuth (Returns JNull) network_failure (initial_state stored_session) =
     checkAuth network_failure (emit CheckRedirectResult (initial_state stored_session))
   \<and> localStorage (snd (initAuth (Returns JNull) network_failure (initial_state stored_session)))
        ''accessToken'' = None
   \<and> localStorage (snd (initAuth (Returns JNull) network_failure (initial_state stored_session)))
        ''refreshToken'' = None
   \<and> user (snd (initAuth (Returns JNull) network_failure (initial_state stored_session))) = JNull"
proof -
  have a: "localStorage (initial_state stored_session) ''accessToken'' = Some ''acc0''"
    and r: "localStorage (initial_state stored_session) ''refreshToken'' = Some ''ref0''"
    by (simp_all add: initial_state_def stored_session_def)
  have a0: "''acc0'' \<noteq> []" and r0: "''ref0'' \<noteq> []" by simp_all
  from checkAuth_failed_identity_check [OF a a0 r r0 unwrapped_network_failure]
  show ?thesis by blast
qed

subsection \<open>The role-selection dialog\<close>




subsection \<open>Logging out\<close>

text \<open>
  C10. \<^verbatim>\<open>logout\<close> always resolves, and always ends signed out locally: both stored tokens
  are removed, the in-memory user is \<^verbatim>\<open>null\<close>, and the last effects are the two removals,
  the setting of the user, the navigation to \<^verbatim>\<open>/login\<close> and the toast. This holds whatever
  the backend's logout request and the identity provider's sign-out give; when one of
  them throws, the only difference is a line on the console.
\<close>

theorem logout_signs_out_locally:
  "fst (logout reply signOut s) = Resolved JUndefined
   \<and> localStorage (snd (logout reply signOut s)) ''accessToken'' = None
   \<and> localStorage (snd (logout reply signOut s)) ''refreshToken'' = None
   \<and> user (snd (logout reply signOut s)) = JNull
   \<and> effects (snd (logout reply signOut s)) =
       effects s @ [ApiPost ''/auth/logout'' JUndefined]
       @ (case reply of Throws error \<Rightarrow> [ConsoleError ''Logout API failed:''] | Returns r \<Rightarrow> [])
       @ [FirebaseSignOut]
       @ (case signOut of Throws error \<Rightarrow> [ConsoleError ''Firebase sign out failed:'']
                          | Returns r \<Rightarrow> [])
       @ [StorageRemove ''accessToken'', StorageRemove ''refreshToken'', SetUser JNull,
          Navigate ''/login'' False, ToastInfo (JStr ''Logged out successfully'')]"
  by (simp add: logout_def prims Let_def split: awaited.splits)

text \<open>
  The theorem on a browser that holds a session, when both the backend's logout and the
  identity provider's sign-out fail.
\<close>

theorem logout_signs_out_locally_witness:
  "fst (logout network_failure network_failure (initial_state stored_session)) = Resolved JUndefined
   \<and> localStorage (snd (logout network_failure network_failure (initial_state stored_session)))
        ''accessToken'' = None
   \<and> localStorage (snd (logout network_failure network_failure (initial_state stored_session)))
        ''refreshToken'' = None
   \<and> user (snd (logout network_failure network_failure (initial_state stored_session))) = JNull
   \<and> effects (snd (logout network_failure network_failure (initial_state stored_session))) =
       [ApiPost ''/auth/logout'' JUndefined, ConsoleError ''Logout API failed:'',
        FirebaseSignOut, ConsoleError ''Firebase sign out failed:'',
        StorageRemove ''accessToken'', StorageRemove ''refreshToken'', SetUser JNull,
        Navigate ''/login'' False, ToastInfo (JStr ''Logged out successfully'')]"
  using logout_signs_out_locally
          [where reply = network_failure and signOut = network_failure
             and s = "initial_state stored_session"]
  by (simp add: network_failure_def initial_state_def)

subsection \<open>Cancelling\<close>

text \<open>
  C9. \<^verbatim>\<open>cancelGoogleLogin\<close> empties the pending-auth holder and changes nothing else: the
  in-memory user, the loading flag and the whole of \<^verbatim>\<open>localStorage\<close> (so both session
  tokens) stay as they were, and the only effect added to the trace is the call of the
  holder's setter, which is neither a backend request nor a navigation.
\<close>

theorem cancelGoogleLogin_frame:
  "pendingGoogleAuth (cancelGoogleLogin s) = None
   \<and> user (cancelGoogleLogin s) = user s
   \<and> loading (cancelGoogleLogin s) = loading s
   \<and> localStorage (cancelGoogleLogin s) = localStorage s
   \<and> effects (cancelGoogleLogin s) = effects s @ [SetPendingGoogleAuth None]"
  by (simp add: cancelGoogleLogin_def setPendingGoogleAuth_def emit_def)

text \<open>The theorem on the credential of the popup sign-in.\<close>

theorem cancelGoogleLogin_frame_witness:
  "pendingGoogleAuth (cancelGoogleLogin awaiting_role) = None
   \<and> user (cancelGoogleLogin awaiting_role) = JNull
   \<and> localStorage (cancelGoogleLogin awaiting_role) = Map.empty
   \<and> effects (cancelGoogleLogin awaiting_role) =
       [FirebaseGoogleSignIn,
        SetPendingGoogleAuth (Some \<lparr>idToken = JStr ''tok123'', userEmail = JStr ''a@x.com''\<rparr>),
        SetPendingGoogleAuth None]"
  using cancelGoogleLogin_frame [of awaiting_role] by (simp add: awaiting_role_eq)

end
